theory Spec2Isabelle
  imports Complex_Main
begin

section \<open>Python values, exceptions and dictionaries\<close>

text \<open>
  The module \<^verbatim>\<open>src/property_calculator.py\<close> works on Python numbers, on dictionaries
  keyed by strings, and on objects of the cheminformatics toolkit (RDKit). A dictionary
  is a partial map from its string keys. A value stored in a property record is \<open>None\<close>,
  a number or a string (the record keeps the SMILES string beside its numbers). A
  number is
  \<^item> \<open>PyNum x\<close>: a finite float, or an int that converts to a float, with the real value
    \<open>x\<close> (rounding and the infinities are not modelled);
  \<^item> \<open>PyNaN\<close>: the float NaN;
  \<^item> \<open>PyHuge\<close>: an int too large to convert to a float, such as \<open>10**400\<close>.
\<close>

datatype pyval = PyNone | PyNum real | PyNaN | PyHuge | PyStr string

text \<open>
  The result of float arithmetic: a real, or NaN. Every operation with a NaN operand
  gives NaN, also the multiplication by zero.
\<close>

datatype pyfloat = Float real | NaN

text \<open>
  Exceptions are values. The source names one exception class, \<open>ImportError\<close>; the
  arithmetic on a non-number raises \<open>TypeError\<close>, the conversion of a too large int to a
  float raises \<open>OverflowError\<close>; everything else a collaborator may raise is
  \<open>OtherError\<close>. All are subclasses of Python's \<open>Exception\<close>, so both a bare
  \<^verbatim>\<open>except:\<close> and \<^verbatim>\<open>except Exception\<close> catch them.
\<close>

datatype pyexn = ImportError | TypeError | OverflowError | OtherError

type_synonym props = "string \<rightharpoonup> pyval"

definition bind_exn :: "pyexn + 'a \<Rightarrow> ('a \<Rightarrow> pyexn + 'b) \<Rightarrow> pyexn + 'b" where
  "bind_exn m f = (case m of Inl e \<Rightarrow> Inl e | Inr v \<Rightarrow> f v)"

text \<open>\<^verbatim>\<open>d.get(key, default)\<close>\<close>

definition dict_get :: "props \<Rightarrow> string \<Rightarrow> pyval \<Rightarrow> pyval" where
  "dict_get d key dflt = (case d key of None \<Rightarrow> dflt | Some v \<Rightarrow> v)"

text \<open>
  Unary minus: defined on numbers (the negation of NaN is NaN, that of a too large int
  is a too large int), \<open>TypeError\<close> on \<open>None\<close> and on strings.
\<close>

definition py_neg :: "pyval \<Rightarrow> pyexn + pyval" where
  "py_neg x = (case x of PyNum v \<Rightarrow> Inr (PyNum (- v)) | PyNaN \<Rightarrow> Inr PyNaN
     | PyHuge \<Rightarrow> Inr PyHuge | PyNone \<Rightarrow> Inl TypeError | PyStr s \<Rightarrow> Inl TypeError)"

text \<open>The product of a weight and a score, the sum of two floats, the quotient by a weight.\<close>

definition fmul :: "real \<Rightarrow> pyfloat \<Rightarrow> pyfloat" where
  "fmul w x = (case x of Float v \<Rightarrow> Float (w * v) | NaN \<Rightarrow> NaN)"

definition fadd :: "pyfloat \<Rightarrow> pyfloat \<Rightarrow> pyfloat" where
  "fadd x y = (case x of NaN \<Rightarrow> NaN
     | Float a \<Rightarrow> (case y of NaN \<Rightarrow> NaN | Float b \<Rightarrow> Float (a + b)))"

definition fdiv :: "pyfloat \<Rightarrow> real \<Rightarrow> pyfloat" where
  "fdiv x w = (case x of Float v \<Rightarrow> Float (v / w) | NaN \<Rightarrow> NaN)"

text \<open>\<^verbatim>\<open>np.clip(x, lo, hi)\<close> on a scalar; a NaN passes through.\<close>

definition clip :: "pyfloat \<Rightarrow> real \<Rightarrow> real \<Rightarrow> pyfloat" where
  "clip x lo hi = (case x of Float v \<Rightarrow> Float (min (max v lo) hi) | NaN \<Rightarrow> NaN)"

section \<open>The reward aggregator\<close>

text \<open>
  \<^verbatim>\<open>
  def _sigmoid(x, k=1.0, x0=0.0):
      if x is None: return 0.0
      return 1 / (1 + np.exp(-k * (x - x0)))
  \<close>
  The difference \<open>x - x0\<close> raises \<open>TypeError\<close> on a string and \<open>OverflowError\<close> on a too
  large int; on NaN the result is NaN.
\<close>

definition sigmoid :: "pyval \<Rightarrow> real \<Rightarrow> real \<Rightarrow> pyexn + pyfloat" where
  "sigmoid x k x0 = (case x of
       PyNone \<Rightarrow> Inr (Float 0)
     | PyNum v \<Rightarrow> Inr (Float (1 / (1 + exp (- k * (v - x0)))))
     | PyNaN \<Rightarrow> Inr NaN
     | PyHuge \<Rightarrow> Inl OverflowError
     | PyStr s \<Rightarrow> Inl TypeError)"

text \<open>
  The six objectives. The source keeps the six weights in a dictionary with the keys
  \<open>r_pic50\<close>, \<open>r_sel\<close>, \<open>r_qed\<close>, \<open>r_cns\<close>, \<open>r_bbb\<close>, \<open>r_sa\<close> (in this order) and the
  six sigmoid scores in local variables of the same names; both are records here, the
  weights of reals, the scores of floats.
\<close>

record 'a objectives =
  r_pic50 :: 'a
  r_sel :: 'a
  r_qed :: 'a
  r_cns :: 'a
  r_bbb :: 'a
  r_sa :: 'a

definition default_weights :: "real objectives" where
  "default_weights =
     \<lparr>r_pic50 = 0.35, r_sel = 0.20, r_qed = 0.15, r_cns = 0.10, r_bbb = 0.10, r_sa = 0.10\<rparr>"

text \<open>
  \<^verbatim>\<open>
  redist_weight = weights['r_pic50'] + weights['r_sel']
  weights['r_pic50'] = 0
  weights['r_sel'] = 0
  weights['r_qed'] += redist_weight * 0.5
  weights['r_sa'] += redist_weight * 0.5
  \<close>
\<close>

definition redistribute :: "real objectives \<Rightarrow> real objectives" where
  "redistribute w =
     (let redist_weight = r_pic50 w + r_sel w;
          w1 = w\<lparr>r_pic50 := 0\<rparr>;
          w2 = w1\<lparr>r_sel := 0\<rparr>;
          w3 = w2\<lparr>r_qed := r_qed w2 + redist_weight * 0.5\<rparr>
      in w3\<lparr>r_sa := r_sa w3 + redist_weight * 0.5\<rparr>)"

text \<open>The weights after the test \<^verbatim>\<open>if 'pIC50_KEAP1' not in props\<close>.\<close>

definition effective_weights :: "props \<Rightarrow> real objectives" where
  "effective_weights props =
     (if props ''pIC50_KEAP1'' = None then redistribute default_weights else default_weights)"

text \<open>\<^verbatim>\<open>sum(weights.values())\<close>, in the dictionary's order, starting from 0.\<close>

definition sum_values :: "real objectives \<Rightarrow> real" where
  "sum_values w = 0 + r_pic50 w + r_sel w + r_qed w + r_cns w + r_bbb w + r_sa w"

text \<open>
  The six sigmoid scores, computed in the order of the source; the first exception
  ends the computation. The synthetic accessibility score is negated before it is
  squashed, and its default is 10.
\<close>

definition objective_scores :: "props \<Rightarrow> pyexn + pyfloat objectives" where
  "objective_scores props =
     bind_exn (sigmoid (dict_get props ''pIC50_KEAP1'' (PyNum 0.0)) 2.0 7.5) (\<lambda>s_pic50.
     bind_exn (sigmoid (dict_get props ''Selectivity_Score'' (PyNum 0.0)) 1.5 2.5) (\<lambda>s_sel.
     bind_exn (sigmoid (dict_get props ''QED'' (PyNum 0.0)) 10 0.6) (\<lambda>s_qed.
     bind_exn (sigmoid (dict_get props ''CNS_MPO'' (PyNum 0.0)) 15 0.5) (\<lambda>s_cns.
     bind_exn (sigmoid (dict_get props ''BBB_Score'' (PyNum 0.0)) 10 0.7) (\<lambda>s_bbb.
     bind_exn (py_neg (dict_get props ''SA_Score'' (PyNum 10.0))) (\<lambda>neg_sa.
     bind_exn (sigmoid neg_sa 1.0 (- 3.5)) (\<lambda>s_sa.
       Inr \<lparr>r_pic50 = s_pic50, r_sel = s_sel, r_qed = s_qed, r_cns = s_cns,
            r_bbb = s_bbb, r_sa = s_sa\<rparr>)))))))"

text \<open>
  \<^verbatim>\<open>
  weights['r_pic50'] * r_pic50 + weights['r_sel'] * r_sel +
  weights['r_qed'] * r_qed + weights['r_cns'] * r_cns +
  weights['r_bbb'] * r_bbb + weights['r_sa'] * r_sa
  \<close>
\<close>

definition weighted_sum :: "real objectives \<Rightarrow> pyfloat objectives \<Rightarrow> pyfloat" where
  "weighted_sum weights s =
     fadd (fadd (fadd (fadd (fadd
       (fmul (r_pic50 weights) (r_pic50 s)) (fmul (r_sel weights) (r_sel s)))
       (fmul (r_qed weights) (r_qed s))) (fmul (r_cns weights) (r_cns s)))
       (fmul (r_bbb weights) (r_bbb s))) (fmul (r_sa weights) (r_sa s))"

text \<open>
  \<^verbatim>\<open>calculate_multi_objective_reward(props)\<close>. The argument is \<open>None\<close> or a dictionary;
  \<^verbatim>\<open>not props\<close> holds for \<open>None\<close> and for the empty dictionary.
\<close>

definition calculate_multi_objective_reward :: "props option \<Rightarrow> pyexn + pyfloat" where
  "calculate_multi_objective_reward p =
     (case p of
        None \<Rightarrow> Inr (Float 0.01)
      | Some props \<Rightarrow>
          if props = Map.empty then Inr (Float 0.01)
          else bind_exn (objective_scores props) (\<lambda>s.
            let weights = effective_weights props;
                total_weight = sum_values weights
            in if total_weight = 0 then Inr (Float 0.01)
               else Inr (clip (fdiv (weighted_sum weights s) total_weight) 0 1)))"

section \<open>The cheminformatics toolkit and the predictors\<close>

text \<open>
  Parsing, sanitization, the structural-alert catalog, the descriptors, the optional
  \<open>sascorer\<close> module and the fingerprint generator (\<open>MORGAN_GENERATOR\<close>, imported from
  the configuration module) are collaborators of the module, not part of it: they are
  the fields of a toolkit the functions take as a parameter, over any type \<open>'mol\<close> of
  parsed molecules. A call the source makes inside a \<^verbatim>\<open>try\<close> block may raise, and
  its result is a sum; \<open>MolFromSmiles\<close> may also return \<open>None\<close>. \<open>SanitizeMol\<close> works in
  place in the source: here it returns the sanitized molecule. The descriptors are pure
  functions of the molecule; counts are integers. \<open>sascorer\<close> is \<open>None\<close> when the module
  cannot be imported (\<open>ImportError\<close>), otherwise its function \<open>calculateScore\<close>.
\<close>

record 'mol toolkit =
  MolFromSmiles :: "string \<Rightarrow> pyexn + 'mol option"
  SanitizeMol :: "'mol \<Rightarrow> pyexn + 'mol"
  HasMatch :: "'mol \<Rightarrow> pyexn + bool"
  Descriptors_qed :: "'mol \<Rightarrow> real"
  MolLogP :: "'mol \<Rightarrow> real"
  Crippen_MolLogP :: "'mol \<Rightarrow> real"
  MolWt :: "'mol \<Rightarrow> real"
  TPSA :: "'mol \<Rightarrow> real"
  NumHDonors :: "'mol \<Rightarrow> int"
  NumHAcceptors :: "'mol \<Rightarrow> int"
  NumRotatableBonds :: "'mol \<Rightarrow> int"
  FractionCSP3 :: "'mol \<Rightarrow> real"
  RingCount :: "'mol \<Rightarrow> int"
  NumAromaticRings :: "'mol \<Rightarrow> int"
  HeavyAtomCount :: "'mol \<Rightarrow> int"
  sascorer :: "('mol \<Rightarrow> pyexn + real) option"
  GetFingerprint :: "'mol \<Rightarrow> pyexn + real list"

text \<open>
  A predictor is the call \<^verbatim>\<open>model.predict(features)[0]\<close>: a number, or an exception.
  The evaluator receives three optional predictors.
\<close>

type_synonym predictor = "real list \<Rightarrow> pyexn + real"

section \<open>Filters and scores\<close>

text \<open>
  \<^verbatim>\<open>
  def calculate_sa_score(mol):
      try:
          sys.path.append(os.path.join(RDContribDir, 'SA_Score'))
          import sascorer
          return sascorer.calculateScore(mol)
      except ImportError:
          logp = Descriptors.MolLogP(mol)
          mw = Descriptors.MolWt(mol)
          rot_bonds = Descriptors.NumRotatableBonds(mol)
          score = 2.5 + 0.1 * (mw / 100) + 0.2 * rot_bonds + 0.3 * abs(logp - 2.5)
          return min(score, 10.0)
  \<close>
  Only \<open>ImportError\<close> is caught: any other exception of the scorer reaches the caller.
\<close>

definition sa_approximation :: "'mol toolkit \<Rightarrow> 'mol \<Rightarrow> real" where
  "sa_approximation tk mol =
     (let logp = MolLogP tk mol;
          mw = MolWt tk mol;
          rot_bonds = NumRotatableBonds tk mol;
          score = 2.5 + 0.1 * (mw / 100) + 0.2 * of_int rot_bonds + 0.3 * \<bar>logp - 2.5\<bar>
      in min score 10.0)"

definition calculate_sa_score :: "'mol toolkit \<Rightarrow> 'mol \<Rightarrow> pyexn + real" where
  "calculate_sa_score tk mol =
     (case sascorer tk of
        None \<Rightarrow> Inr (sa_approximation tk mol)
      | Some calculateScore \<Rightarrow>
          (case calculateScore mol of
             Inr v \<Rightarrow> Inr v
           | Inl e \<Rightarrow> if e = ImportError then Inr (sa_approximation tk mol) else Inl e))"

definition has_pains :: "'mol toolkit \<Rightarrow> 'mol \<Rightarrow> pyexn + bool" where
  "has_pains tk mol = HasMatch tk mol"

text \<open>
  \<^verbatim>\<open>check_valency\<close> returns \<open>False\<close> on any exception of the sanitization; the second
  component is the molecule after the call.
\<close>

definition check_valency :: "'mol toolkit \<Rightarrow> 'mol \<Rightarrow> bool \<times> 'mol" where
  "check_valency tk mol =
     (case SanitizeMol tk mol of Inr mol' \<Rightarrow> (True, mol') | Inl e \<Rightarrow> (False, mol))"

text \<open>
  \<^verbatim>\<open>calculate_cns_mpo\<close>: the mean of four desirability scores. The descriptors return
  numbers, so the source's test for a \<open>None\<close> descriptor never fires.
\<close>

definition calculate_cns_mpo :: "'mol toolkit \<Rightarrow> 'mol \<Rightarrow> real" where
  "calculate_cns_mpo tk mol =
     (let logp = MolLogP tk mol;
          tpsa = TPSA tk mol;
          mw = MolWt tk mol;
          hbd = of_int (NumHDonors tk mol);
          scores = [exp (- ((logp - 2.5)\<^sup>2) / 2),
                    exp (- ((tpsa - 75)\<^sup>2) / (2 * 30\<^sup>2)),
                    exp (- ((mw - 400)\<^sup>2) / (2 * 100\<^sup>2)),
                    if hbd > 2.5 then exp (- (hbd - 2.5)) else 1.0]
      in sum_list scores / of_nat (length scores))"

section \<open>The property evaluator\<close>

text \<open>The feature vector: the fingerprint, then ten descriptors in a fixed order.\<close>

definition get_features :: "'mol toolkit \<Rightarrow> 'mol \<Rightarrow> pyexn + real list" where
  "get_features tk mol =
     bind_exn (GetFingerprint tk mol) (\<lambda>fp.
       Inr (fp @ [MolLogP tk mol, MolWt tk mol, TPSA tk mol,
                  of_int (NumHAcceptors tk mol), of_int (NumHDonors tk mol),
                  of_int (NumRotatableBonds tk mol), FractionCSP3 tk mol,
                  of_int (RingCount tk mol), of_int (NumAromaticRings tk mol),
                  of_int (HeavyAtomCount tk mol)]))"

text \<open>
  The guard of \<^verbatim>\<open>calculate_advanced_properties\<close>:
  \<^verbatim>\<open>
  try:
      mol = Chem.MolFromSmiles(smiles)
      if not mol or not check_valency(mol) or has_pains(mol):
          return None
  except:
      return None
  \<close>
  The result is the molecule the rest of the function works on, or \<open>None\<close> when the
  function returns \<open>None\<close> here. The tests short-circuit from left to right.
\<close>

definition accepted_molecule :: "'mol toolkit \<Rightarrow> string \<Rightarrow> 'mol option" where
  "accepted_molecule tk smiles =
     (case MolFromSmiles tk smiles of
        Inl e \<Rightarrow> None
      | Inr None \<Rightarrow> None
      | Inr (Some mol) \<Rightarrow>
          (case check_valency tk mol of
             (valid, mol') \<Rightarrow>
               if \<not> valid then None
               else (case has_pains tk mol' of
                       Inl e \<Rightarrow> None
                     | Inr alert \<Rightarrow> if alert then None else Some mol')))"

text \<open>
  \<^verbatim>\<open>
  logp = Crippen.MolLogP(mol)
  tpsa = Descriptors.TPSA(mol)
  bbb_score = 1.0 - (0.1 if tpsa > 90 else 0)
                  - (0.1 if Descriptors.NumHDonors(mol) > 5 else 0)
                  - (0.1 if logp > 5 else 0)
  \<close>
\<close>

definition bbb_score :: "'mol toolkit \<Rightarrow> 'mol \<Rightarrow> real" where
  "bbb_score tk mol =
     (let logp = Crippen_MolLogP tk mol;
          tpsa = TPSA tk mol
      in 1.0 - (if tpsa > 90 then 0.1 else 0)
             - (if NumHDonors tk mol > 5 then 0.1 else 0)
             - (if logp > 5 then 0.1 else 0))"

text \<open>
  The predictor block: the features, then the three predictors in the order KEAP1, EGFR,
  IKKb; the first exception ends it.
\<close>

definition predictions ::
  "'mol toolkit \<Rightarrow> 'mol \<Rightarrow> predictor \<Rightarrow> predictor \<Rightarrow> predictor \<Rightarrow> pyexn + real \<times> real \<times> real"
where
  "predictions tk mol keap1 egfr ikkb =
     bind_exn (get_features tk mol) (\<lambda>features.
     bind_exn (keap1 features) (\<lambda>pic50_keap1.
     bind_exn (egfr features) (\<lambda>pic50_egfr.
     bind_exn (ikkb features) (\<lambda>pic50_ikkb.
       Inr (pic50_keap1, pic50_egfr, pic50_ikkb)))))"

text \<open>
  \<^verbatim>\<open>calculate_advanced_properties(smiles, keap1_m, egfr_m, ikkb_m)\<close>. The result is an
  exception that reaches the caller, \<open>None\<close>, or the property record. An exception in
  the predictor block is caught (and logged; the log is not modelled) and the function
  returns \<open>None\<close>. A predictor that is \<open>None\<close> is falsy.
\<close>

definition calculate_advanced_properties ::
  "'mol toolkit \<Rightarrow> string \<Rightarrow> predictor option \<Rightarrow> predictor option \<Rightarrow> predictor option
     \<Rightarrow> pyexn + props option"
where
  "calculate_advanced_properties tk smiles keap1_m egfr_m ikkb_m =
     (case accepted_molecule tk smiles of
        None \<Rightarrow> Inr None
      | Some mol \<Rightarrow>
          bind_exn (calculate_sa_score tk mol) (\<lambda>sa.
            let result = [''SMILES'' \<mapsto> PyStr smiles,
                          ''QED'' \<mapsto> PyNum (Descriptors_qed tk mol),
                          ''CNS_MPO'' \<mapsto> PyNum (calculate_cns_mpo tk mol),
                          ''SA_Score'' \<mapsto> PyNum sa,
                          ''RingCount'' \<mapsto> PyNum (of_int (RingCount tk mol)),
                          ''MolWt'' \<mapsto> PyNum (MolWt tk mol)];
                result = result(''BBB_Score'' \<mapsto> PyNum (bbb_score tk mol))
            in case keap1_m of None \<Rightarrow> Inr (Some result) | Some keap1 \<Rightarrow>
               case egfr_m of None \<Rightarrow> Inr (Some result) | Some egfr \<Rightarrow>
               case ikkb_m of None \<Rightarrow> Inr (Some result) | Some ikkb \<Rightarrow>
                 (case predictions tk mol keap1 egfr ikkb of
                    Inl e \<Rightarrow> Inr None
                  | Inr (pic50_keap1, pic50_egfr, pic50_ikkb) \<Rightarrow>
                      Inr (Some (result(
                        ''pIC50_KEAP1'' \<mapsto> PyNum pic50_keap1,
                        ''pIC50_EGFR'' \<mapsto> PyNum pic50_egfr,
                        ''pIC50_IKKb'' \<mapsto> PyNum pic50_ikkb,
                        ''Selectivity_Score'' \<mapsto>
                           PyNum (pic50_keap1 - max pic50_egfr pic50_ikkb)))))))"

section \<open>Auxiliary notions for the statements\<close>

text \<open>
  A record has finite numeric property values when each of the six fields the reward
  function reads is absent or holds a number with a real value: not NaN, and not an int
  too large to convert to a float.
\<close>

definition finite_numeric_record :: "props \<Rightarrow> bool" where
  "finite_numeric_record props =
     list_all (\<lambda>key. case props key of None \<Rightarrow> True | Some v \<Rightarrow>
                 (case v of PyNum x \<Rightarrow> True | PyNaN \<Rightarrow> False | PyHuge \<Rightarrow> False
                  | PyNone \<Rightarrow> False | PyStr s \<Rightarrow> False))
       [''pIC50_KEAP1'', ''Selectivity_Score'', ''QED'', ''CNS_MPO'', ''BBB_Score'',
        ''SA_Score'']"

text \<open>
  A small toolkit on which the theorems are instantiated. A parsed molecule is its own
  SMILES string; one string does not parse, one fails sanitization, one matches a
  structural alert; the descriptors tell ethanol from everything else; there is no
  \<open>sascorer\<close> module.
\<close>

definition example_toolkit :: "string toolkit" where
  "example_toolkit =
     \<lparr>MolFromSmiles = (\<lambda>s. if s = ''not_a_smiles'' then Inr None else Inr (Some s)),
      SanitizeMol = (\<lambda>m. if m = ''C(C)(C)(C)(C)C'' then Inl OtherError else Inr m),
      HasMatch = (\<lambda>m. Inr (m = ''O=C1C=CC(=O)C=C1'')),
      Descriptors_qed = (\<lambda>m. if m = ''CCO'' then 0.41 else 0.12),
      MolLogP = (\<lambda>m. if m = ''CCO'' then - 0.0014 else 6.2),
      Crippen_MolLogP = (\<lambda>m. if m = ''CCO'' then - 0.0014 else 6.2),
      MolWt = (\<lambda>m. if m = ''CCO'' then 46.07 else 650),
      TPSA = (\<lambda>m. if m = ''CCO'' then 20.23 else 150),
      NumHDonors = (\<lambda>m. if m = ''CCO'' then 1 else 7),
      NumHAcceptors = (\<lambda>m. if m = ''CCO'' then 1 else 9),
      NumRotatableBonds = (\<lambda>m. if m = ''CCO'' then 0 else 12),
      FractionCSP3 = (\<lambda>m. if m = ''CCO'' then 1 else 0.3),
      RingCount = (\<lambda>m. if m = ''CCO'' then 0 else 4),
      NumAromaticRings = (\<lambda>m. if m = ''CCO'' then 0 else 3),
      HeavyAtomCount = (\<lambda>m. if m = ''CCO'' then 3 else 45),
      sascorer = None,
      GetFingerprint = (\<lambda>m. Inr [0, 1, 0, 0])\<rparr>"

section \<open>Properties of the reward aggregator\<close>

subsection \<open>The weights\<close>

lemma sum_values_default: "sum_values default_weights = 1"
  by (simp add: sum_values_def default_weights_def)

lemma redistribute_default:
  "redistribute default_weights =
     \<lparr>r_pic50 = 0, r_sel = 0, r_qed = 0.425, r_cns = 0.10, r_bbb = 0.10, r_sa = 0.375\<rparr>"
  by (simp add: redistribute_def default_weights_def Let_def)

lemma sum_values_redistribute: "sum_values (redistribute default_weights) = 1"
  by (simp add: redistribute_default sum_values_def)

lemma sum_values_effective: "sum_values (effective_weights props) = 1"
  by (simp add: effective_weights_def sum_values_default sum_values_redistribute)

lemma fdiv_one: "fdiv x 1 = x"
  by (simp add: fdiv_def split: pyfloat.splits)

lemma reward_simplified:
  "calculate_multi_objective_reward p =
     (case p of
        None \<Rightarrow> Inr (Float 0.01)
      | Some props \<Rightarrow>
          if props = Map.empty then Inr (Float 0.01)
          else bind_exn (objective_scores props) (\<lambda>s.
            Inr (clip (weighted_sum (effective_weights props) s) 0 1)))"
  by (simp add: calculate_multi_objective_reward_def sum_values_effective fdiv_one Let_def
      split: option.splits)

text \<open>
  C1, as amended. For every property record that lacks the potency key
  \<open>pIC50_KEAP1\<close> (so for every record that lacks the potency and selectivity keys) the
  effective weights are potency 0, selectivity 0, drug-likeness 0.15 + 0.275,
  CNS 0.10, BBB 0.10 and synthesis ease 0.10 + 0.275: the combined mass 0.55 of the
  potency and selectivity weights is split 50/50 onto the drug-likeness and the
  synthesis-ease weights, before the normalization; and the reward of a non-empty such
  record is the clamped sum of the scores under these weights. The claim as stated adds
  0.125 to each of the two weights: that is not what the code computes.
\<close>

theorem redistributed_weights:
  assumes "props ''pIC50_KEAP1'' = None"
  shows "effective_weights props =
           \<lparr>r_pic50 = 0, r_sel = 0, r_qed = 0.15 + 0.275, r_cns = 0.10, r_bbb = 0.10,
            r_sa = 0.10 + 0.275\<rparr> \<and>
         (props \<noteq> Map.empty \<longrightarrow>
            calculate_multi_objective_reward (Some props) =
              bind_exn (objective_scores props) (\<lambda>s.
                Inr (clip (weighted_sum
                       \<lparr>r_pic50 = 0, r_sel = 0, r_qed = 0.15 + 0.275, r_cns = 0.10,
                        r_bbb = 0.10, r_sa = 0.10 + 0.275\<rparr> s) 0 1)))"
proof -
  have w: "effective_weights props =
      \<lparr>r_pic50 = 0, r_sel = 0, r_qed = 0.425, r_cns = 0.10, r_bbb = 0.10, r_sa = 0.375\<rparr>"
    using assms by (simp add: effective_weights_def redistribute_default)
  then show ?thesis
    by (simp add: reward_simplified)
qed

theorem redistributed_weights_witness:
  "effective_weights [''QED'' \<mapsto> PyNum 0.9, ''SA_Score'' \<mapsto> PyNum 2] =
     \<lparr>r_pic50 = 0, r_sel = 0, r_qed = 0.15 + 0.275, r_cns = 0.10, r_bbb = 0.10,
      r_sa = 0.10 + 0.275\<rparr> \<and>
   calculate_multi_objective_reward (Some [''QED'' \<mapsto> PyNum 0.9, ''SA_Score'' \<mapsto> PyNum 2]) =
     bind_exn (objective_scores [''QED'' \<mapsto> PyNum 0.9, ''SA_Score'' \<mapsto> PyNum 2]) (\<lambda>s.
       Inr (clip (weighted_sum
              \<lparr>r_pic50 = 0, r_sel = 0, r_qed = 0.15 + 0.275, r_cns = 0.10,
               r_bbb = 0.10, r_sa = 0.10 + 0.275\<rparr> s) 0 1))"
proof -
  have h: "[''QED'' \<mapsto> PyNum 0.9, ''SA_Score'' \<mapsto> PyNum 2] ''pIC50_KEAP1'' = None"
    by simp
  have n: "[''QED'' \<mapsto> PyNum 0.9, ''SA_Score'' \<mapsto> PyNum 2] \<noteq> Map.empty"
    by simp
  from redistributed_weights [of "[''QED'' \<mapsto> PyNum 0.9, ''SA_Score'' \<mapsto> PyNum 2]"] h n
  show ?thesis by blast
qed

theorem redistributed_weights_counterexample:
  "[''QED'' \<mapsto> PyNum 0.9, ''SA_Score'' \<mapsto> PyNum 2] ''pIC50_KEAP1'' = None \<and>
   [''QED'' \<mapsto> PyNum 0.9, ''SA_Score'' \<mapsto> PyNum 2] ''Selectivity_Score'' = None \<and>
   effective_weights [''QED'' \<mapsto> PyNum 0.9, ''SA_Score'' \<mapsto> PyNum 2] \<noteq>
     \<lparr>r_pic50 = 0, r_sel = 0, r_qed = 0.15 + 0.125, r_cns = 0.10, r_bbb = 0.10,
      r_sa = 0.10 + 0.125\<rparr>"
  by (simp add: effective_weights_def redistribute_default)

text \<open>
  C10. For every property record, with or without the potency key, the effective
  weights sum to exactly 1; so the branch for a zero total weight is never taken and the
  division by the total weight changes nothing: the reward function equals the function
  without that branch and without the division.
\<close>

theorem weights_sum_to_one:
  "sum_values (effective_weights props) = 1 \<and>
   calculate_multi_objective_reward p =
     (case p of
        None \<Rightarrow> Inr (Float 0.01)
      | Some props \<Rightarrow>
          if props = Map.empty then Inr (Float 0.01)
          else bind_exn (objective_scores props) (\<lambda>s.
            Inr (clip (weighted_sum (effective_weights props) s) 0 1)))"
  using sum_values_effective reward_simplified by simp

subsection \<open>The floor value and the range\<close>

text \<open>
  C5. Applied to a null record the reward function returns exactly 0.01, the floor value,
  and not zero.
\<close>

theorem reward_null_floor:
  "calculate_multi_objective_reward None = Inr (Float 0.01) \<and>
   calculate_multi_objective_reward None \<noteq> Inr (Float 0)"
  by (simp add: calculate_multi_objective_reward_def)

lemma clip_unit: "clip x 0 1 = Float v \<Longrightarrow> 0 \<le> v \<and> v \<le> 1"
  by (auto simp add: clip_def split: pyfloat.splits)

lemma clip_Float: "clip (Float x) lo hi = Float (min (max x lo) hi)"
  by (simp add: clip_def)


lemma reward_range:
  "calculate_multi_objective_reward p = Inr (Float v) \<Longrightarrow> 0 \<le> v \<and> v \<le> 1"
  using clip_unit
  by (auto simp add: reward_simplified bind_exn_def split: option.splits if_splits sum.splits)

lemma weighted_sum_Float:
  "weighted_sum w \<lparr>r_pic50 = Float a, r_sel = Float b, r_qed = Float c, r_cns = Float d,
                   r_bbb = Float e, r_sa = Float f\<rparr> =
     Float (r_pic50 w * a + r_sel w * b + r_qed w * c + r_cns w * d + r_bbb w * e + r_sa w * f)"
  by (simp add: weighted_sum_def fmul_def fadd_def)

lemma dict_get_numeric:
  assumes "finite_numeric_record props"
    and "key \<in> set [''pIC50_KEAP1'', ''Selectivity_Score'', ''QED'', ''CNS_MPO'',
           ''BBB_Score'', ''SA_Score'']"
  shows "\<exists>x. dict_get props key (PyNum d) = PyNum x"
proof -
  from assms have "case props key of None \<Rightarrow> True | Some v \<Rightarrow>
      (case v of PyNum x \<Rightarrow> True | PyNaN \<Rightarrow> False | PyHuge \<Rightarrow> False
       | PyNone \<Rightarrow> False | PyStr s \<Rightarrow> False)"
    unfolding finite_numeric_record_def list_all_iff by blast
  then show ?thesis
    by (cases "props key") (auto simp add: dict_get_def split: pyval.splits)
qed

lemma scores_numeric:
  assumes "finite_numeric_record props"
  shows "\<exists>a b c d e f. objective_scores props =
           Inr \<lparr>r_pic50 = Float a, r_sel = Float b, r_qed = Float c, r_cns = Float d,
                r_bbb = Float e, r_sa = Float f\<rparr>"
proof -
  obtain x1 where x1: "dict_get props ''pIC50_KEAP1'' (PyNum 0.0) = PyNum x1"
    using dict_get_numeric [OF assms] by fastforce
  obtain x2 where x2: "dict_get props ''Selectivity_Score'' (PyNum 0.0) = PyNum x2"
    using dict_get_numeric [OF assms] by fastforce
  obtain x3 where x3: "dict_get props ''QED'' (PyNum 0.0) = PyNum x3"
    using dict_get_numeric [OF assms] by fastforce
  obtain x4 where x4: "dict_get props ''CNS_MPO'' (PyNum 0.0) = PyNum x4"
    using dict_get_numeric [OF assms] by fastforce
  obtain x5 where x5: "dict_get props ''BBB_Score'' (PyNum 0.0) = PyNum x5"
    using dict_get_numeric [OF assms] by fastforce
  obtain x6 where x6: "dict_get props ''SA_Score'' (PyNum 10.0) = PyNum x6"
    using dict_get_numeric [OF assms] by fastforce
  show ?thesis
    unfolding objective_scores_def x1 x2 x3 x4 x5 x6
    by (simp add: bind_exn_def sigmoid_def py_neg_def)
qed

text \<open>
  C4, as amended. For the null record and for every property record with finite numeric
  property values (however extreme, but not NaN and not an int too large to convert to
  a float) the reward function returns a number, and the number lies in \<open>[0, 1]\<close>. The
  claim as stated covers any numeric value: on a record with a NaN field the function
  returns NaN, and on a record with a too large int it raises \<open>OverflowError\<close>.
\<close>

theorem reward_in_unit_interval:
  assumes "case p of None \<Rightarrow> True | Some props \<Rightarrow> finite_numeric_record props"
  shows "\<exists>v. calculate_multi_objective_reward p = Inr (Float v) \<and> 0 \<le> v \<and> v \<le> 1"
proof -
  have "\<exists>v. calculate_multi_objective_reward p = Inr (Float v)"
  proof (cases p)
    case None
    then have "calculate_multi_objective_reward p = Inr (Float 0.01)"
      by (simp add: reward_simplified)
    then show ?thesis ..
  next
    case (Some props)
    with assms have "finite_numeric_record props" by simp
    from scores_numeric [OF this] obtain a b c d e f where "objective_scores props =
        Inr \<lparr>r_pic50 = Float a, r_sel = Float b, r_qed = Float c, r_cns = Float d,
             r_bbb = Float e, r_sa = Float f\<rparr>"
      by blast
    with Some have "calculate_multi_objective_reward p =
        Inr (Float (if props = Map.empty then 0.01
             else min (max (r_pic50 (effective_weights props) * a +
                    r_sel (effective_weights props) * b + r_qed (effective_weights props) * c +
                    r_cns (effective_weights props) * d + r_bbb (effective_weights props) * e +
                    r_sa (effective_weights props) * f) 0) 1))"
      by (simp add: reward_simplified bind_exn_def weighted_sum_Float clip_Float)
    then show ?thesis ..
  qed
  then show ?thesis using reward_range by blast
qed

theorem reward_in_unit_interval_witness:
  "(\<exists>v. calculate_multi_objective_reward
          (Some [''QED'' \<mapsto> PyNum 0.5, ''SA_Score'' \<mapsto> PyNum 1000000,
                 ''SMILES'' \<mapsto> PyStr ''CCO''])
        = Inr (Float v) \<and> 0 \<le> v \<and> v \<le> 1) \<and>
   (\<exists>v. calculate_multi_objective_reward
          (Some [''SA_Score'' \<mapsto> PyNum 0, ''pIC50_KEAP1'' \<mapsto> PyNum 9])
        = Inr (Float v) \<and> 0 \<le> v \<and> v \<le> 1)"
  using reward_in_unit_interval
    [of "Some [''QED'' \<mapsto> PyNum 0.5, ''SA_Score'' \<mapsto> PyNum 1000000,
               ''SMILES'' \<mapsto> PyStr ''CCO'']"]
    reward_in_unit_interval
    [of "Some [''SA_Score'' \<mapsto> PyNum 0, ''pIC50_KEAP1'' \<mapsto> PyNum 9]"]
  by (simp add: finite_numeric_record_def)

theorem reward_in_unit_interval_counterexample:
  "calculate_multi_objective_reward (Some [''QED'' \<mapsto> PyNaN, ''SA_Score'' \<mapsto> PyNum 3]) = Inr NaN \<and>
   \<not> (\<exists>v. calculate_multi_objective_reward (Some [''QED'' \<mapsto> PyNaN, ''SA_Score'' \<mapsto> PyNum 3])
          = Inr (Float v) \<and> 0 \<le> v \<and> v \<le> 1) \<and>
   calculate_multi_objective_reward (Some [''pIC50_KEAP1'' \<mapsto> PyHuge]) = Inl OverflowError \<and>
   \<not> (\<exists>v. calculate_multi_objective_reward (Some [''pIC50_KEAP1'' \<mapsto> PyHuge])
          = Inr (Float v) \<and> 0 \<le> v \<and> v \<le> 1)"
proof -
  have 1: "calculate_multi_objective_reward (Some [''QED'' \<mapsto> PyNaN, ''SA_Score'' \<mapsto> PyNum 3])
      = Inr NaN"
    by (simp add: reward_simplified objective_scores_def bind_exn_def dict_get_def
        sigmoid_def py_neg_def weighted_sum_def fmul_def fadd_def clip_def)
  have 2: "calculate_multi_objective_reward (Some [''pIC50_KEAP1'' \<mapsto> PyHuge])
      = Inl OverflowError"
    by (simp add: reward_simplified objective_scores_def bind_exn_def dict_get_def
        sigmoid_def)
  show ?thesis unfolding 1 2 by simp
qed

subsection \<open>Monotonicity in the potency\<close>






section \<open>Properties of the scores and of the property evaluator\<close>

subsection \<open>The instance\<close>

lemma example_sascorer: "sascorer example_toolkit = None"
  by (simp add: example_toolkit_def)

lemma example_accepted: "accepted_molecule example_toolkit ''CCO'' = Some ''CCO''"
  by (simp add: accepted_molecule_def check_valency_def has_pains_def example_toolkit_def)

lemma example_sa_score:
  "calculate_sa_score example_toolkit ''CCO'' = Inr (sa_approximation example_toolkit ''CCO'')"
  by (simp add: calculate_sa_score_def example_sascorer)

lemma example_features:
  "get_features example_toolkit ''CCO'' =
     Inr [0, 1, 0, 0, - 0.0014, 46.07, 20.23, 1, 1, 0, 1, 0, 0, 3]"
  by (simp add: get_features_def bind_exn_def example_toolkit_def)

lemma example_record:
  "\<exists>r. calculate_advanced_properties example_toolkit ''CCO'' None None None = Inr (Some r)"
  by (simp add: calculate_advanced_properties_def example_accepted calculate_sa_score_def
      example_sascorer bind_exn_def)

lemma example_accepted_other:
  "accepted_molecule example_toolkit ''c1ccccc1CCCCCCCCCCCCCC'' = Some ''c1ccccc1CCCCCCCCCCCCCC''"
  by (simp add: accepted_molecule_def check_valency_def has_pains_def example_toolkit_def)

lemma example_record_other:
  "\<exists>r. calculate_advanced_properties example_toolkit ''c1ccccc1CCCCCCCCCCCCCC'' None None None
         = Inr (Some r)"
  by (simp add: calculate_advanced_properties_def example_accepted_other
      calculate_sa_score_def example_sascorer bind_exn_def)

subsection \<open>Synthetic accessibility\<close>

text \<open>
  C7. Whenever the dedicated scorer is unavailable, the synthetic accessibility score
  of a molecule is \<open>min(2.5 + 0.1 * (MW / 100) + 0.2 * rotatable_bonds + 0.3 * |logP - 2.5|, 10.0)\<close>.
\<close>

theorem sa_score_fallback:
  assumes "sascorer tk = None"
  shows "calculate_sa_score tk mol =
           Inr (min (2.5 + 0.1 * (MolWt tk mol / 100) + 0.2 * of_int (NumRotatableBonds tk mol)
                       + 0.3 * \<bar>MolLogP tk mol - 2.5\<bar>) 10.0)"
  using assms by (simp add: calculate_sa_score_def sa_approximation_def Let_def)

theorem sa_score_fallback_witness:
  "sascorer example_toolkit = None \<and>
   calculate_sa_score example_toolkit ''CCO'' =
     Inr (min (2.5 + 0.1 * (46.07 / 100) + 0.2 * 0 + 0.3 * \<bar>- 0.0014 - 2.5\<bar>) 10.0)"
proof -
  have h: "sascorer example_toolkit = None" by (simp add: example_toolkit_def)
  from sa_score_fallback [OF h, of "''CCO''"] h show ?thesis
    by (simp add: example_toolkit_def)
qed

subsection \<open>The blood-brain-barrier heuristic\<close>

lemma bbb_score_cases:
  "bbb_score tk mol =
     1 - (if TPSA tk mol > 90 then 1 / 10 else 0)
       - (if NumHDonors tk mol > 5 then 1 / 10 else 0)
       - (if Crippen_MolLogP tk mol > 5 then 1 / 10 else 0)"
  unfolding bbb_score_def Let_def by simp

lemma bbb_score_range: "0.7 \<le> bbb_score tk mol \<and> bbb_score tk mol \<le> 1"
  unfolding bbb_score_cases
  by (cases "TPSA tk mol > 90"; cases "NumHDonors tk mol > 5"; cases "Crippen_MolLogP tk mol > 5")
     simp_all

lemma result_bbb:
  assumes "calculate_advanced_properties tk smiles keap1_m egfr_m ikkb_m = Inr (Some r)"
  shows "\<exists>mol. accepted_molecule tk smiles = Some mol \<and>
           r ''BBB_Score'' = Some (PyNum (bbb_score tk mol))"
  using assms
  by (auto simp add: calculate_advanced_properties_def bind_exn_def Let_def
      split: option.splits sum.splits prod.splits)

text \<open>
  C3. For every molecule the evaluator accepts, the BBB score of the record is 1.0,
  minus 0.1 if the topological polar surface area is above 90, minus a further 0.1 if
  the number of H-bond donors is above 5, minus a further 0.1 if the computed logP is
  above 5.
\<close>

theorem bbb_formula:
  assumes "calculate_advanced_properties tk smiles keap1_m egfr_m ikkb_m = Inr (Some r)"
  shows "\<exists>mol. accepted_molecule tk smiles = Some mol \<and>
           r ''BBB_Score'' = Some (PyNum
             (1.0 - (if TPSA tk mol > 90 then 0.1 else 0)
                  - (if NumHDonors tk mol > 5 then 0.1 else 0)
                  - (if Crippen_MolLogP tk mol > 5 then 0.1 else 0)))"
  using result_bbb [OF assms] by (simp add: bbb_score_cases)

theorem bbb_formula_witness:
  "\<exists>r. calculate_advanced_properties example_toolkit ''c1ccccc1CCCCCCCCCCCCCC'' None None None
          = Inr (Some r) \<and>
       r ''BBB_Score'' = Some (PyNum 0.7)"
proof -
  from example_record_other obtain r where
    h: "calculate_advanced_properties example_toolkit ''c1ccccc1CCCCCCCCCCCCCC'' None None None
          = Inr (Some r)" ..
  from bbb_formula [OF h] have "r ''BBB_Score'' = Some (PyNum 0.7)"
    by (simp add: example_accepted_other) (simp add: example_toolkit_def)
  with h show ?thesis by blast
qed

text \<open>
  C2, as amended. For every molecule the evaluator accepts, the BBB score lies between
  0.7 and 1: three penalties of 0.1 taken from 1.0 leave at least 0.7, and the score
  is never negative. The claim as stated, that some input has a negative score, is
  refuted for every toolkit.
\<close>

theorem bbb_at_least_07:
  assumes "calculate_advanced_properties tk smiles keap1_m egfr_m ikkb_m = Inr (Some r)"
  shows "\<exists>b. r ''BBB_Score'' = Some (PyNum b) \<and> 0.7 \<le> b \<and> b \<le> 1"
proof -
  from result_bbb [OF assms] obtain mol
    where "r ''BBB_Score'' = Some (PyNum (bbb_score tk mol))" by blast
  with bbb_score_range [of tk mol] show ?thesis by simp
qed

theorem bbb_at_least_07_witness:
  "\<exists>r b. calculate_advanced_properties example_toolkit ''CCO'' None None None = Inr (Some r) \<and>
         r ''BBB_Score'' = Some (PyNum b) \<and> 0.7 \<le> b \<and> b \<le> 1"
proof -
  from example_record obtain r where
    h: "calculate_advanced_properties example_toolkit ''CCO'' None None None = Inr (Some r)" ..
  from bbb_at_least_07 [OF h] h show ?thesis by blast
qed

theorem bbb_negative_counterexample:
  "\<not> (\<exists>(tk :: 'mol toolkit) smiles keap1_m egfr_m ikkb_m r b.
        calculate_advanced_properties tk smiles keap1_m egfr_m ikkb_m = Inr (Some r) \<and>
        r ''BBB_Score'' = Some (PyNum b) \<and> b < 0)"
proof
  assume "\<exists>(tk :: 'mol toolkit) smiles keap1_m egfr_m ikkb_m r b.
        calculate_advanced_properties tk smiles keap1_m egfr_m ikkb_m = Inr (Some r) \<and>
        r ''BBB_Score'' = Some (PyNum b) \<and> b < 0"
  then obtain tk :: "'mol toolkit" and smiles keap1_m egfr_m ikkb_m r b
    where h: "calculate_advanced_properties tk smiles keap1_m egfr_m ikkb_m = Inr (Some r)"
      and b: "r ''BBB_Score'' = Some (PyNum b)" "b < 0"
    by blast
  from result_bbb [OF h] obtain mol
    where "r ''BBB_Score'' = Some (PyNum (bbb_score tk mol))" by blast
  with b have "bbb_score tk mol < 0" by simp
  with bbb_score_range [of tk mol] show False by simp
qed

subsection \<open>Rejected encodings\<close>

lemma rejected_None:
  "accepted_molecule tk smiles = None \<Longrightarrow>
   calculate_advanced_properties tk smiles keap1_m egfr_m ikkb_m = Inr None"
  by (simp add: calculate_advanced_properties_def)

lemma rejected_cases:
  assumes "(\<exists>e. MolFromSmiles tk smiles = Inl e) \<or> MolFromSmiles tk smiles = Inr None \<or>
      (\<exists>mol. MolFromSmiles tk smiles = Inr (Some mol) \<and>
         (\<not> fst (check_valency tk mol) \<or>
          has_pains tk (snd (check_valency tk mol)) = Inr True \<or>
          (\<exists>e. has_pains tk (snd (check_valency tk mol)) = Inl e)))"
  shows "accepted_molecule tk smiles = None"
  using assms
  by (auto simp add: accepted_molecule_def split: sum.splits option.splits prod.splits)

text \<open>
  C9. For every encoding that fails to parse (the parser returns \<open>None\<close> or raises),
  fails the sanitization check, or matches a structural alert (or whose alert check
  raises), the evaluator returns \<open>None\<close>: a value, not an exception.
\<close>

theorem rejected_returns_None:
  assumes "(\<exists>e. MolFromSmiles tk smiles = Inl e) \<or> MolFromSmiles tk smiles = Inr None \<or>
      (\<exists>mol. MolFromSmiles tk smiles = Inr (Some mol) \<and>
         (\<not> fst (check_valency tk mol) \<or>
          has_pains tk (snd (check_valency tk mol)) = Inr True \<or>
          (\<exists>e. has_pains tk (snd (check_valency tk mol)) = Inl e)))"
  shows "calculate_advanced_properties tk smiles keap1_m egfr_m ikkb_m = Inr None"
  using rejected_cases [OF assms] by (rule rejected_None)

theorem rejected_returns_None_witness:
  "MolFromSmiles example_toolkit ''not_a_smiles'' = Inr None \<and>
   calculate_advanced_properties example_toolkit ''not_a_smiles'' None None None = Inr None \<and>
   MolFromSmiles example_toolkit ''C(C)(C)(C)(C)C'' = Inr (Some ''C(C)(C)(C)(C)C'') \<and>
   \<not> fst (check_valency example_toolkit ''C(C)(C)(C)(C)C'') \<and>
   calculate_advanced_properties example_toolkit ''C(C)(C)(C)(C)C'' None None None = Inr None \<and>
   MolFromSmiles example_toolkit ''O=C1C=CC(=O)C=C1'' = Inr (Some ''O=C1C=CC(=O)C=C1'') \<and>
   has_pains example_toolkit (snd (check_valency example_toolkit ''O=C1C=CC(=O)C=C1'')) = Inr True \<and>
   calculate_advanced_properties example_toolkit ''O=C1C=CC(=O)C=C1'' None None None = Inr None"
proof -
  have p: "MolFromSmiles example_toolkit ''not_a_smiles'' = Inr None"
    by (simp add: example_toolkit_def)
  have v: "MolFromSmiles example_toolkit ''C(C)(C)(C)(C)C'' = Inr (Some ''C(C)(C)(C)(C)C'')"
    "\<not> fst (check_valency example_toolkit ''C(C)(C)(C)(C)C'')"
    by (simp_all add: example_toolkit_def check_valency_def)
  have a: "MolFromSmiles example_toolkit ''O=C1C=CC(=O)C=C1'' = Inr (Some ''O=C1C=CC(=O)C=C1'')"
    "has_pains example_toolkit (snd (check_valency example_toolkit ''O=C1C=CC(=O)C=C1''))
       = Inr True"
    by (simp_all add: example_toolkit_def check_valency_def has_pains_def)
  have "calculate_advanced_properties example_toolkit ''not_a_smiles'' None None None = Inr None"
    using p by (intro rejected_returns_None) blast
  moreover
  have "calculate_advanced_properties example_toolkit ''C(C)(C)(C)(C)C'' None None None = Inr None"
    using v by (intro rejected_returns_None) blast
  moreover
  have "calculate_advanced_properties example_toolkit ''O=C1C=CC(=O)C=C1'' None None None = Inr None"
    using a by (intro rejected_returns_None) blast
  ultimately show ?thesis using p v a by blast
qed

subsection \<open>The predictor block\<close>

lemma result_optional_keys:
  assumes "calculate_advanced_properties tk smiles keap1_m egfr_m ikkb_m = Inr (Some r)"
  shows "(r ''pIC50_KEAP1'' \<noteq> None \<and> r ''pIC50_EGFR'' \<noteq> None \<and> r ''pIC50_IKKb'' \<noteq> None \<and>
          r ''Selectivity_Score'' \<noteq> None) \<or>
         (r ''pIC50_KEAP1'' = None \<and> r ''pIC50_EGFR'' = None \<and> r ''pIC50_IKKb'' = None \<and>
          r ''Selectivity_Score'' = None)"
  using assms
  by (auto simp add: calculate_advanced_properties_def bind_exn_def Let_def
      split: option.splits sum.splits prod.splits)

lemma predictions_Inl:
  assumes "get_features tk mol = Inr f"
    and "(\<exists>x. keap1 f = Inl x) \<or> (\<exists>x. egfr f = Inl x) \<or> (\<exists>x. ikkb f = Inl x)"
  shows "\<exists>x. predictions tk mol keap1 egfr ikkb = Inl x"
  using assms
  by (auto simp add: predictions_def bind_exn_def split: sum.splits)

text \<open>
  C6. Every record the evaluator returns holds the four predictor-derived keys (the
  three potency estimates and the selectivity score) all together or not at all; and
  when the three predictors are given and the invocation of any of them raises, the
  evaluator returns \<open>None\<close>, never a partly filled record.
\<close>

theorem predictor_block_atomic:
  "(calculate_advanced_properties tk smiles keap1_m egfr_m ikkb_m = Inr (Some r) \<longrightarrow>
      (r ''pIC50_KEAP1'' \<noteq> None \<and> r ''pIC50_EGFR'' \<noteq> None \<and> r ''pIC50_IKKb'' \<noteq> None \<and>
       r ''Selectivity_Score'' \<noteq> None) \<or>
      (r ''pIC50_KEAP1'' = None \<and> r ''pIC50_EGFR'' = None \<and> r ''pIC50_IKKb'' = None \<and>
       r ''Selectivity_Score'' = None)) \<and>
   (accepted_molecule tk smiles = Some mol \<and> calculate_sa_score tk mol = Inr sa \<and>
    keap1_m = Some keap1 \<and> egfr_m = Some egfr \<and> ikkb_m = Some ikkb \<and>
    get_features tk mol = Inr f \<and>
    ((\<exists>x. keap1 f = Inl x) \<or> (\<exists>x. egfr f = Inl x) \<or> (\<exists>x. ikkb f = Inl x)) \<longrightarrow>
      calculate_advanced_properties tk smiles keap1_m egfr_m ikkb_m = Inr None)"
proof (intro conjI impI)
  assume "calculate_advanced_properties tk smiles keap1_m egfr_m ikkb_m = Inr (Some r)"
  then show "(r ''pIC50_KEAP1'' \<noteq> None \<and> r ''pIC50_EGFR'' \<noteq> None \<and> r ''pIC50_IKKb'' \<noteq> None \<and>
       r ''Selectivity_Score'' \<noteq> None) \<or>
      (r ''pIC50_KEAP1'' = None \<and> r ''pIC50_EGFR'' = None \<and> r ''pIC50_IKKb'' = None \<and>
       r ''Selectivity_Score'' = None)"
    by (rule result_optional_keys)
next
  assume h: "accepted_molecule tk smiles = Some mol \<and> calculate_sa_score tk mol = Inr sa \<and>
    keap1_m = Some keap1 \<and> egfr_m = Some egfr \<and> ikkb_m = Some ikkb \<and>
    get_features tk mol = Inr f \<and>
    ((\<exists>x. keap1 f = Inl x) \<or> (\<exists>x. egfr f = Inl x) \<or> (\<exists>x. ikkb f = Inl x))"
  then obtain x where "predictions tk mol keap1 egfr ikkb = Inl x"
    using predictions_Inl [of tk mol f keap1 egfr ikkb] by blast
  with h show "calculate_advanced_properties tk smiles keap1_m egfr_m ikkb_m = Inr None"
    by (simp add: calculate_advanced_properties_def bind_exn_def)
qed

theorem predictor_block_atomic_witness:
  "calculate_advanced_properties example_toolkit ''CCO''
      (Some (\<lambda>f. Inr 6.5)) (Some (\<lambda>f. Inl OtherError)) (Some (\<lambda>f. Inr 5)) = Inr None \<and>
   (\<exists>r. calculate_advanced_properties example_toolkit ''CCO''
      (Some (\<lambda>f. Inr 6.5)) (Some (\<lambda>f. Inr 4)) (Some (\<lambda>f. Inr 5)) = Inr (Some r) \<and>
      r ''pIC50_KEAP1'' \<noteq> None \<and> r ''pIC50_EGFR'' \<noteq> None \<and> r ''pIC50_IKKb'' \<noteq> None \<and>
      r ''Selectivity_Score'' = Some (PyNum 1.5))"
proof -
  let ?f = "[0, 1, 0, 0, - 0.0014, 46.07, 20.23, 1, 1, 0, 1, 0, 0, 3] :: real list"
  have "(\<lambda>f. Inl OtherError :: pyexn + real) ?f = Inl OtherError" by simp
  then have 1: "calculate_advanced_properties example_toolkit ''CCO''
      (Some (\<lambda>f. Inr 6.5)) (Some (\<lambda>f. Inl OtherError)) (Some (\<lambda>f. Inr 5)) = Inr None"
    using predictor_block_atomic [of example_toolkit "''CCO''" "Some (\<lambda>f. Inr 6.5)"
        "Some (\<lambda>f. Inl OtherError)" "Some (\<lambda>f. Inr 5)" Map.empty "''CCO''"
        "sa_approximation example_toolkit ''CCO''" "\<lambda>f. Inr 6.5" "\<lambda>f. Inl OtherError"
        "\<lambda>f. Inr 5" ?f]
      example_accepted example_sa_score example_features
    by blast
  have "\<exists>r. calculate_advanced_properties example_toolkit ''CCO''
      (Some (\<lambda>f. Inr 6.5)) (Some (\<lambda>f. Inr 4)) (Some (\<lambda>f. Inr 5)) = Inr (Some r) \<and>
      r ''Selectivity_Score'' = Some (PyNum 1.5)"
    by (simp add: calculate_advanced_properties_def example_accepted example_sa_score
        predictions_def example_features bind_exn_def)
  then obtain r where r: "calculate_advanced_properties example_toolkit ''CCO''
      (Some (\<lambda>f. Inr 6.5)) (Some (\<lambda>f. Inr 4)) (Some (\<lambda>f. Inr 5)) = Inr (Some r)"
    and s: "r ''Selectivity_Score'' = Some (PyNum 1.5)" by blast
  from predictor_block_atomic [of example_toolkit "''CCO''" "Some (\<lambda>f. Inr 6.5)"
        "Some (\<lambda>f. Inr 4)" "Some (\<lambda>f. Inr 5)" r] r s
  have "r ''pIC50_KEAP1'' \<noteq> None \<and> r ''pIC50_EGFR'' \<noteq> None \<and> r ''pIC50_IKKb'' \<noteq> None"
    by simp
  with 1 r s show ?thesis by blast
qed

end
